theory Spec2Isabelle
  imports Complex_Main
begin

section \<open>Shared data model of \<open>market_analyzer.py\<close>\<close>

subsection \<open>Floating-point values with their special cases\<close>

text \<open>
  The analyzer computes with numpy/pandas floats. Rounding and overflow are abstracted
  away (a finite float is a real), but the special values that decide branches of the
  code are kept: a division by zero does not raise on numpy values, it yields an
  infinity or NaN, and every ordered comparison with NaN is false. Signed zeros are
  not distinguished.
\<close>

datatype fl = Fin real | PInf | NInf | NaN

fun fl_neg :: "fl \<Rightarrow> fl" where
  "fl_neg (Fin a) = Fin (- a)"
| "fl_neg PInf = NInf"
| "fl_neg NInf = PInf"
| "fl_neg NaN = NaN"

fun fl_abs :: "fl \<Rightarrow> fl" where
  "fl_abs (Fin a) = Fin \<bar>a\<bar>"
| "fl_abs PInf = PInf"
| "fl_abs NInf = PInf"
| "fl_abs NaN = NaN"

fun fl_add :: "fl \<Rightarrow> fl \<Rightarrow> fl" where
  "fl_add (Fin a) (Fin b) = Fin (a + b)"
| "fl_add NaN _ = NaN"
| "fl_add _ NaN = NaN"
| "fl_add PInf NInf = NaN"
| "fl_add NInf PInf = NaN"
| "fl_add PInf _ = PInf"
| "fl_add NInf _ = NInf"
| "fl_add _ PInf = PInf"
| "fl_add _ NInf = NInf"

definition fl_sub :: "fl \<Rightarrow> fl \<Rightarrow> fl" where
  "fl_sub a b = fl_add a (fl_neg b)"

fun fl_mul :: "fl \<Rightarrow> fl \<Rightarrow> fl" where
  "fl_mul (Fin a) (Fin b) = Fin (a * b)"
| "fl_mul NaN _ = NaN"
| "fl_mul _ NaN = NaN"
| "fl_mul PInf (Fin b) = (if b > 0 then PInf else if b < 0 then NInf else NaN)"
| "fl_mul NInf (Fin b) = (if b > 0 then NInf else if b < 0 then PInf else NaN)"
| "fl_mul (Fin a) PInf = (if a > 0 then PInf else if a < 0 then NInf else NaN)"
| "fl_mul (Fin a) NInf = (if a > 0 then NInf else if a < 0 then PInf else NaN)"
| "fl_mul PInf PInf = PInf"
| "fl_mul NInf NInf = PInf"
| "fl_mul PInf NInf = NInf"
| "fl_mul NInf PInf = NInf"

fun fl_div :: "fl \<Rightarrow> fl \<Rightarrow> fl" where
  "fl_div (Fin a) (Fin b) =
     (if b \<noteq> 0 then Fin (a / b)
      else if a > 0 then PInf else if a < 0 then NInf else NaN)"
| "fl_div NaN _ = NaN"
| "fl_div _ NaN = NaN"
| "fl_div (Fin a) PInf = Fin 0"
| "fl_div (Fin a) NInf = Fin 0"
| "fl_div PInf (Fin b) = (if b \<ge> 0 then PInf else NInf)"
| "fl_div NInf (Fin b) = (if b \<ge> 0 then NInf else PInf)"
| "fl_div PInf PInf = NaN"
| "fl_div PInf NInf = NaN"
| "fl_div NInf PInf = NaN"
| "fl_div NInf NInf = NaN"

fun fl_lt :: "fl \<Rightarrow> fl \<Rightarrow> bool" where
  "fl_lt (Fin a) (Fin b) = (a < b)"
| "fl_lt NaN _ = False"
| "fl_lt _ NaN = False"
| "fl_lt NInf NInf = False"
| "fl_lt NInf _ = True"
| "fl_lt PInf _ = False"
| "fl_lt (Fin a) PInf = True"
| "fl_lt (Fin a) NInf = False"

definition fl_gt :: "fl \<Rightarrow> fl \<Rightarrow> bool" where
  "fl_gt a b = fl_lt b a"

fun fl_isnan :: "fl \<Rightarrow> bool" where
  "fl_isnan NaN = True"
| "fl_isnan _ = False"

subsection \<open>Price frames\<close>

text \<open>
  A pandas \<open>DataFrame\<close> of prices: the row labels (already rendered by
  \<open>strftime('%Y-%m-%d')\<close>) and the named columns in order. \<open>df[name]\<close> raises
  \<open>KeyError\<close> for a missing column, \<open>series.iloc[i]\<close> raises \<open>IndexError\<close> out of
  range; both are \<open>None\<close> here. Cell values are finite.
\<close>

record frame =
  index :: "string list"
  columns :: "(string \<times> real list) list"

definition frame_len :: "frame \<Rightarrow> nat" where
  "frame_len df = length (index df)"

definition frame_empty :: "frame \<Rightarrow> bool" where
  \<comment> \<open>\<open>df.empty\<close>: some axis has length 0\<close>
  "frame_empty df = (index df = [] \<or> columns df = [])"

definition col :: "frame \<Rightarrow> string \<Rightarrow> real list option" where
  "col df name = map_of (columns df) name"

definition iloc :: "'a list \<Rightarrow> int \<Rightarrow> 'a option" where
  \<comment> \<open>\<open>series.iloc[i]\<close>: a position from the front, or a negative one from the back\<close>
  "iloc xs i =
     (if 0 \<le> i \<and> i < int (length xs) then Some (xs ! nat i)
      else if i < 0 \<and> - int (length xs) \<le> i then Some (xs ! nat (int (length xs) + i))
      else None)"

definition last_n :: "nat \<Rightarrow> 'a list \<Rightarrow> 'a list" where
  \<comment> \<open>\<open>xs[-n:]\<close> for \<open>0 < n \<le> len(xs)\<close>\<close>
  "last_n n xs = drop (length xs - n) xs"

definition frame_tail :: "nat \<Rightarrow> frame \<Rightarrow> frame" where
  \<comment> \<open>\<open>df.iloc[-n:]\<close>\<close>
  "frame_tail n df =
     \<lparr>index = last_n n (index df),
      columns = map (\<lambda>(name, vs). (name, last_n n vs)) (columns df)\<rparr>"

text \<open>
  The \<open>security_data\<close> dictionary, as far as the analyzer reads it: the \<open>'data'\<close>
  entry maps a timeframe name to its frame, the \<open>'stats'\<close> entry maps a statistic's
  name to a number or to Python's \<open>None\<close>. A key that is absent is \<open>None\<close>; a
  \<open>security_data\<close> argument that is falsy (\<open>None\<close> or \<open>{}\<close>) is \<open>None\<close> as a whole.
\<close>

record security_data =
  sd_data :: "(string \<times> frame) list option"
  sd_stats :: "(string \<times> real option) list option"

section \<open>The cache\<close>

text \<open>
  Times are microseconds on the clock of \<open>datetime.now()\<close>. A stored creation time is
  a \<open>datetime\<close> or a string; \<open>datetime.strptime(s, '%Y-%m-%d %H:%M:%S')\<close> is the
  library's parser, a parameter here, with \<open>None\<close> for its \<open>ValueError\<close>.
\<close>

datatype cache_time = Stamp int | Text string

record 'v analyzer =
  data_cache :: "string \<rightharpoonup> (cache_time \<times> 'v)"
  cache_expiry :: int

definition hours :: "int \<Rightarrow> int" where
  \<comment> \<open>\<open>timedelta(hours=h)\<close>\<close>
  "hours h = h * 3600 * 1000000"

definition init :: "'v analyzer" where
  \<comment> \<open>the cache fields set by \<open>MarketAnalyzer.__init__\<close>\<close>
  "init = \<lparr>data_cache = Map.empty, cache_expiry = hours 1\<rparr>"

definition get_from_cache ::
  "(string \<Rightarrow> int option) \<Rightarrow> int \<Rightarrow> 'v analyzer \<Rightarrow> string \<Rightarrow> 'v option" where
  "get_from_cache strptime now self cache_key =
     (case data_cache self cache_key of
        None \<Rightarrow> None
      | Some (cache_time, cached_data) \<Rightarrow>
          (case (case cache_time of
                   Text s \<Rightarrow> strptime s
                 | Stamp t \<Rightarrow> Some t) of
             None \<Rightarrow> None
           | Some t \<Rightarrow>
               if now - t < cache_expiry self then Some cached_data else None))"

definition store_in_cache :: "int \<Rightarrow> 'v analyzer \<Rightarrow> string \<Rightarrow> 'v \<Rightarrow> 'v analyzer" where
  "store_in_cache now self cache_key d =
     self\<lparr>data_cache := (data_cache self)(cache_key \<mapsto> (Stamp now, d))\<rparr>"

section \<open>The price summary of the narrative\<close>

text \<open>
  \<open>_generate_price_summary\<close> computes the parts below and renders them into one
  sentence; \<open>fmt2\<close> stands for the \<open>:.2f\<close> formatting of a float. Every exception
  inside the function is caught and turned into \<open>None\<close>.
\<close>

record price_summary =
  direction :: string
  magnitude :: string
  price_change_pct :: fl
  current_price :: real
  open_price :: real
  day_high :: real
  day_low :: real
  volume_desc :: "string option"

definition list_max :: "real list \<Rightarrow> real option" where
  "list_max xs = (case xs of [] \<Rightarrow> None | y # ys \<Rightarrow> Some (fold max ys y))"

definition list_min :: "real list \<Rightarrow> real option" where
  "list_min xs = (case xs of [] \<Rightarrow> None | y # ys \<Rightarrow> Some (fold min ys y))"

definition volume_description :: "security_data \<Rightarrow> frame \<Rightarrow> string option" where
  "volume_description sd today_data =
     (case col today_data ''Volume'' of
        None \<Rightarrow> None
      | Some vol \<Rightarrow>
          (let current_volume = sum_list vol in
           case sd_stats sd of
             None \<Rightarrow> None
           | Some st \<Rightarrow>
               (case map_of st ''Average Volume'' of
                  None \<Rightarrow> None
                | Some None \<Rightarrow> None
                | Some (Some avg_volume) \<Rightarrow>
                    if avg_volume \<noteq> 0 \<and> avg_volume > 0 then
                      (let volume_ratio = current_volume / avg_volume in
                       Some (if volume_ratio > 1.2 then ''higher than''
                             else if volume_ratio < 0.8 then ''lower than''
                             else ''in line with''))
                    else None)))"

definition price_summary_parts :: "security_data option \<Rightarrow> price_summary option" where
  "price_summary_parts security_data =
     (case security_data of
        None \<Rightarrow> None
      | Some sd \<Rightarrow>
     (case sd_data sd of
        None \<Rightarrow> None
      | Some d \<Rightarrow>
     (case map_of d ''today'' of
        None \<Rightarrow> None
      | Some today_data \<Rightarrow>
          if frame_empty today_data then None
          else
            (case col today_data ''Close'' of None \<Rightarrow> None | Some closes \<Rightarrow>
            (case iloc closes (-1) of None \<Rightarrow> None | Some current \<Rightarrow>
            (case col today_data ''Open'' of None \<Rightarrow> None | Some opens \<Rightarrow>
            (case iloc opens 0 of None \<Rightarrow> None | Some opn \<Rightarrow>
            (let price_change = current - opn;
                 pct = fl_mul (fl_div (Fin price_change) (Fin opn)) (Fin 100)
             in
            (case col today_data ''High'' of None \<Rightarrow> None | Some highs \<Rightarrow>
            (case list_max highs of None \<Rightarrow> None | Some hi \<Rightarrow>
            (case col today_data ''Low'' of None \<Rightarrow> None | Some lows \<Rightarrow>
            (case list_min lows of None \<Rightarrow> None | Some lo \<Rightarrow>
               Some \<lparr>direction = (if price_change > 0 then ''up'' else ''down''),
                     magnitude =
                       (if fl_lt (fl_abs pct) (Fin 1) then ''slightly''
                        else if fl_gt (fl_abs pct) (Fin 3) then ''significantly''
                        else ''moderately''),
                     price_change_pct = pct,
                     current_price = current,
                     open_price = opn,
                     day_high = hi,
                     day_low = lo,
                     volume_desc = volume_description sd today_data\<rparr>))))))))))))"

definition render_price_summary ::
  "(fl \<Rightarrow> string) \<Rightarrow> string \<Rightarrow> price_summary \<Rightarrow> string" where
  "render_price_summary fmt2 ticker s =
     ticker @ '' is '' @ direction s @ '' '' @ magnitude s @ '' by ''
       @ fmt2 (fl_abs (price_change_pct s)) @ ''% today, currently trading at $''
       @ fmt2 (Fin (current_price s)) @ ''.''
       @ '' The stock opened at $'' @ fmt2 (Fin (open_price s))
       @ '' and has ranged from $'' @ fmt2 (Fin (day_low s)) @ '' to $''
       @ fmt2 (Fin (day_high s)) @ '' during the session.''
       @ (case volume_desc s of
            None \<Rightarrow> ''''
          | Some v \<Rightarrow> '' Trading volume is '' @ v @ '' average.'')"

definition generate_price_summary ::
  "(fl \<Rightarrow> string) \<Rightarrow> security_data option \<Rightarrow> string \<Rightarrow> string option" where
  "generate_price_summary fmt2 security_data ticker =
     map_option (render_price_summary fmt2 ticker) (price_summary_parts security_data)"

section \<open>The sentiment and topic classifier\<close>

subsection \<open>Text helpers\<close>

text \<open>
  Text is ASCII here: \<open>str.lower\<close> maps \<open>A..Z\<close> to \<open>a..z\<close>, and the regular
  expression's \<open>\w\<close> is a letter, a digit or the underscore.
\<close>

definition lowercase_letters :: string where
  "lowercase_letters = ''abcdefghijklmnopqrstuvwxyz''"

definition uppercase_letters :: string where
  "uppercase_letters = ''ABCDEFGHIJKLMNOPQRSTUVWXYZ''"

definition lower_char :: "char \<Rightarrow> char" where
  "lower_char c =
     (case map_of (zip uppercase_letters lowercase_letters) c of
        None \<Rightarrow> c
      | Some l \<Rightarrow> l)"

definition str_lower :: "string \<Rightarrow> string" where
  \<comment> \<open>\<open>s.lower()\<close>\<close>
  "str_lower s = map lower_char s"

definition is_letter :: "char \<Rightarrow> bool" where
  \<comment> \<open>the class \<open>[A-Za-z]\<close>\<close>
  "is_letter c = (c \<in> set lowercase_letters \<or> c \<in> set uppercase_letters)"

definition is_letter_or_hyphen :: "char \<Rightarrow> bool" where
  \<comment> \<open>the class \<open>[A-Za-z\-]\<close>\<close>
  "is_letter_or_hyphen c = (is_letter c \<or> c = CHR ''-'')"

definition is_word_char :: "char \<Rightarrow> bool" where
  \<comment> \<open>the class \<open>\w\<close>\<close>
  "is_word_char c = (is_letter c \<or> c \<in> set ''0123456789'' \<or> c = CHR ''_'')"

definition boundary_at :: "string \<Rightarrow> nat \<Rightarrow> bool" where
  \<comment> \<open>\<open>\b\<close> holds between positions \<open>i - 1\<close> and \<open>i\<close> of the text\<close>
  "boundary_at text i =
     ((0 < i \<and> i \<le> length text \<and> is_word_char (text ! (i - 1)))
      \<noteq> (i < length text \<and> is_word_char (text ! i)))"

definition match_at :: "string \<Rightarrow> nat \<Rightarrow> nat option" where
  \<comment> \<open>a match of \<open>\b[A-Za-z][A-Za-z\-]{2,}\b\<close> starting at position \<open>i < len(text)\<close>:
      the number of characters matched after the first one, the greedy repetition
      giving characters back until \<open>\b\<close> holds\<close>
  "match_at text i =
     (if boundary_at text i \<and> is_letter (text ! i) then
        (let run = length (takeWhile is_letter_or_hyphen (drop (Suc i) text)) in
         case filter (\<lambda>k. boundary_at text (i + Suc k)) (rev [2..<Suc run]) of
           [] \<Rightarrow> None
         | k # _ \<Rightarrow> Some k)
      else None)"

function findall_from :: "string \<Rightarrow> nat \<Rightarrow> string list" where
  "findall_from text i =
     (if length text \<le> i then []
      else case match_at text i of
             None \<Rightarrow> findall_from text (Suc i)
           | Some k \<Rightarrow> take (Suc k) (drop i text) # findall_from text (i + Suc k))"
  by pat_completeness auto
termination
  by (relation "measure (\<lambda>(text, i). length text - i)") auto

definition findall_words :: "string \<Rightarrow> string list" where
  \<comment> \<open>\<open>re.findall(r'\b[A-Za-z][A-Za-z\-]{2,}\b', text)\<close>\<close>
  "findall_words text = findall_from text 0"

fun contains :: "string \<Rightarrow> string \<Rightarrow> bool" where
  \<comment> \<open>\<open>needle in haystack\<close> on strings\<close>
  "contains needle [] = (needle = [])"
| "contains needle (c # cs) =
     (take (length needle) (c # cs) = needle \<or> contains needle cs)"

subsection \<open>Counters\<close>

text \<open>
  A \<open>Counter\<close> (and a \<open>defaultdict(int)\<close>) keeps its keys in the order of their first
  insertion. \<open>most_common(n)\<close> is \<open>sorted(items, key=count, reverse=True)[:n]\<close>, a
  stable sort: equal counts stay in the order first encountered.
\<close>

type_synonym counter = "(string \<times> nat) list"

fun counter_add :: "string \<Rightarrow> counter \<Rightarrow> counter" where
  "counter_add w [] = [(w, 1)]"
| "counter_add w ((k, c) # kcs) =
     (if k = w then (k, Suc c) # kcs else (k, c) # counter_add w kcs)"

definition counter_update :: "string list \<Rightarrow> counter \<Rightarrow> counter" where
  "counter_update ws cnt = fold counter_add ws cnt"

definition most_common :: "nat \<Rightarrow> counter \<Rightarrow> counter" where
  "most_common n cnt = take n (sort_key (\<lambda>(w, c). - int c) cnt)"

subsection \<open>News items and the analysis\<close>

text \<open>
  A raw news item is a dictionary; a key that is absent is \<open>None\<close>. An element of the
  input list that is falsy (\<open>None\<close> or \<open>{}\<close>) is \<open>None\<close> as a whole.
\<close>

record news_item =
  title :: "string option"
  summary :: "string option"
  source :: "string option"
  url :: "string option"
  timestamp :: "string option"
  sentiment :: "real option"
  entities :: "(string \<times> string list) list option"

record sentiment_item =
  item_title :: string
  item_sentiment :: "real option"
  sentiment_category :: string
  item_source :: string
  item_url :: string
  item_timestamp :: "string option"
  item_topics :: "string list"
  item_entities :: "(string \<times> string list) list option"

record distribution =
  positive :: nat
  negative :: nat
  neutral :: nat

text \<open>
  The analysis dictionary. Its \<open>'keywords'\<close> entry is the field \<open>top_keywords\<close>, its
  \<open>'entities'\<close> entry the field \<open>all_entities\<close>.
\<close>

record news_analysis =
  sentiments :: "sentiment_item list"
  topics :: counter
  all_entities :: "(string \<times> string list) list"
  top_keywords :: "string list"
  average_sentiment :: real
  sentiment_distribution :: distribution
  sources :: counter
  sentiment_label :: string
  news_items :: "sentiment_item list"

definition get_empty_news_analysis :: news_analysis where
  "get_empty_news_analysis =
     \<lparr>sentiments = [],
      topics = [],
      all_entities = [(''tickers'', []), (''companies'', []), (''people'', []), (''topics'', [])],
      top_keywords = [],
      average_sentiment = 0,
      sentiment_distribution = \<lparr>positive = 0, negative = 0, neutral = 0\<rparr>,
      sources = [],
      sentiment_label = ''Neutral'',
      news_items = []\<rparr>"

definition topic_keywords :: "(string \<times> string list) list" where
  "topic_keywords =
     [(''earnings'', [''earnings'', ''revenue'', ''profit'', ''loss'', ''quarter'',
                      ''financial'', ''eps'', ''income'', ''guidance'']),
      (''merger_acquisition'', [''merger'', ''acquisition'', ''takeover'', ''deal'',
                      ''buyout'', ''purchase'', ''acquire'']),
      (''product_launch'', [''launch'', ''release'', ''new product'', ''update'',
                      ''unveil'', ''introduce'', ''announcement'']),
      (''leadership'', [''ceo'', ''executive'', ''appoint'', ''resign'', ''management'',
                      ''leader'', ''director'', ''board'']),
      (''legal_regulatory'', [''lawsuit'', ''court'', ''legal'', ''sue'', ''settlement'',
                      ''regulation'', ''compliance'', ''fine'']),
      (''market_trend'', [''market'', ''index'', ''dow'', ''nasdaq'', ''s&p'', ''bull'',
                      ''bear'', ''trend'', ''correction'']),
      (''technology_innovation'', [''tech'', ''technology'', ''innovation'', ''patent'',
                      ''ai'', ''artificial intelligence'', ''research'']),
      (''economic_indicators'', [''fed'', ''inflation'', ''interest rate'', ''economy'',
                      ''growth'', ''recession'', ''gdp'']),
      (''analyst_rating'', [''analyst'', ''upgrade'', ''downgrade'', ''rating'',
                      ''target'', ''buy'', ''sell'', ''hold'', ''overweight'']),
      (''competition'', [''competitor'', ''rivalry'', ''market share'', ''outperform'',
                      ''versus'', ''competition'']),
      (''international'', [''global'', ''international'', ''foreign'', ''overseas'',
                      ''export'', ''import'', ''tariff'', ''trade''])]"

definition stop_words :: "string list" where
  "stop_words =
     [''this'', ''that'', ''these'', ''those'', ''there'', ''their'', ''they'',
      ''what'', ''when'', ''where'', ''which'', ''while'', ''with'', ''would'',
      ''about'', ''above'', ''after'', ''again'', ''against'', ''could'', ''should'',
      ''from'', ''have'', ''having'', ''here'', ''more'', ''once'', ''only'', ''same'',
      ''some'', ''such'', ''than'', ''then'', ''through'']"

definition item_content :: "news_item \<Rightarrow> string" where
  \<comment> \<open>\<open>f"{title} {summary}"\<close> of a valid item\<close>
  "item_content item =
     (case title item of None \<Rightarrow> [] | Some t \<Rightarrow> t) @ '' ''
       @ (case summary item of None \<Rightarrow> [] | Some s \<Rightarrow> s)"

definition categorize :: "real \<Rightarrow> string" where
  "categorize sentiment_score =
     (if sentiment_score > 0.2 then ''positive''
      else if sentiment_score < - 0.2 then ''negative''
      else ''neutral'')"

definition filtered_words :: "string \<Rightarrow> string list" where
  "filtered_words content =
     filter (\<lambda>w. length w > 3 \<and> w \<notin> set stop_words) (findall_words (str_lower content))"

definition detect_topics :: "string \<Rightarrow> string list" where
  "detect_topics content_lower =
     map fst (filter (\<lambda>(topic, kws). \<exists>keyword \<in> set kws. contains keyword content_lower)
                topic_keywords)"

fun merge_entities ::
  "(string \<times> string list) list \<Rightarrow> (string \<times> string list) list \<Rightarrow> (string \<times> string list) list"
  where
  \<comment> \<open>\<open>analysis['entities'][entity_type].update(entities)\<close> for every pair of the item;
      a set is kept as the list of its members without repetition\<close>
  "merge_entities [] acc = acc"
| "merge_entities ((entity_type, names) # rest) acc =
     merge_entities rest
       (case map_of acc entity_type of
          None \<Rightarrow> acc @ [(entity_type, remdups names)]
        | Some old \<Rightarrow>
            map (\<lambda>(k, v). if k = entity_type then (k, remdups (v @ names)) else (k, v)) acc)"

text \<open>The accumulators of the loop over the valid items.\<close>

record classifier_state =
  analysis :: news_analysis
  total_sentiment :: real
  keyword_counter :: counter
  news_items_with_sentiment :: "(sentiment_item \<times> real) list"

definition bump_distribution :: "string \<Rightarrow> distribution \<Rightarrow> distribution" where
  "bump_distribution category d =
     (if category = ''positive'' then d\<lparr>positive := positive d + 1\<rparr>
      else if category = ''negative'' then d\<lparr>negative := negative d + 1\<rparr>
      else d\<lparr>neutral := neutral d + 1\<rparr>)"

definition make_sentiment_item :: "(string \<Rightarrow> real) \<Rightarrow> string \<Rightarrow> news_item \<Rightarrow> sentiment_item" where
  \<comment> \<open>the \<open>sentiment_item\<close> dictionary built for one valid item\<close>
  "make_sentiment_item polarity now_str item =
     (let content = item_content item;
          sentiment_score = polarity content
      in \<lparr>item_title = (case title item of None \<Rightarrow> [] | Some t \<Rightarrow> t),
          item_sentiment = Some sentiment_score,
          sentiment_category = categorize sentiment_score,
          item_source = (case source item of None \<Rightarrow> ''Unknown'' | Some s \<Rightarrow> s),
          item_url = (case url item of None \<Rightarrow> [] | Some u \<Rightarrow> u),
          item_timestamp = Some (case timestamp item of None \<Rightarrow> now_str | Some t \<Rightarrow> t),
          item_topics = detect_topics (str_lower content),
          item_entities = entities item\<rparr>)"

definition process_item ::
  "(string \<Rightarrow> real) \<Rightarrow> string \<Rightarrow> news_item \<Rightarrow> classifier_state \<Rightarrow> classifier_state" where
  "process_item polarity now_str item st =
     (let content = item_content item;
          sentiment_score = polarity content;
          sentiment_item = make_sentiment_item polarity now_str item;
          a = analysis st
      in \<lparr>analysis =
            a\<lparr>sentiments := sentiments a @ [sentiment_item],
              topics := fold counter_add (item_topics sentiment_item) (topics a),
              all_entities :=
                (case entities item of
                   None \<Rightarrow> all_entities a
                 | Some es \<Rightarrow> merge_entities es (all_entities a)),
              sentiment_distribution :=
                bump_distribution (sentiment_category sentiment_item) (sentiment_distribution a),
              sources := counter_add (item_source sentiment_item) (sources a)\<rparr>,
          total_sentiment = total_sentiment st + sentiment_score,
          keyword_counter = counter_update (filtered_words content) (keyword_counter st),
          news_items_with_sentiment =
            news_items_with_sentiment st @ [(sentiment_item, sentiment_score)]\<rparr>)"

definition is_valid_item :: "news_item option \<Rightarrow> bool" where
  \<comment> \<open>\<open>item and 'title' in item and item['title']\<close>\<close>
  "is_valid_item item =
     (case item of
        None \<Rightarrow> False
      | Some it \<Rightarrow> (case title it of None \<Rightarrow> False | Some t \<Rightarrow> t \<noteq> []))"

definition analyze_news_impact ::
  "(string \<Rightarrow> real) \<Rightarrow> string \<Rightarrow> news_item option list \<Rightarrow> news_analysis" where
  "analyze_news_impact polarity now_str items =
     (if items = [] then get_empty_news_analysis
      else
        (let valid_news_items = map the (filter is_valid_item items) in
         if valid_news_items = [] then get_empty_news_analysis
         else
           (let start =
                  \<lparr>analysis =
                     \<lparr>sentiments = [], topics = [], all_entities = [], top_keywords = [],
                      average_sentiment = 0,
                      sentiment_distribution = \<lparr>positive = 0, negative = 0, neutral = 0\<rparr>,
                      sources = [], sentiment_label = ''Neutral'', news_items = []\<rparr>,
                   total_sentiment = 0, keyword_counter = [],
                   news_items_with_sentiment = []\<rparr>;
                st = fold (process_item polarity now_str) valid_news_items start;
                avg = total_sentiment st / real (length valid_news_items)
            in (analysis st)
                 \<lparr>average_sentiment := avg,
                  sentiment_label :=
                    (if avg > 0.1 then ''Positive''
                     else if avg < - 0.1 then ''Negative''
                     else ''Neutral''),
                  news_items :=
                    map fst (sort_key (\<lambda>x. - \<bar>snd x\<bar>) (news_items_with_sentiment st)),
                  top_keywords := map fst (most_common 20 (keyword_counter st))\<rparr>)))"

subsection \<open>What the classifier counts, said without the loop\<close>



section \<open>The price and news correlation engine\<close>

text \<open>
  The \<open>news_items\<close> argument is a falsy value (\<open>None\<close>, \<open>[]\<close>, \<open>{}\<close>), a news analysis
  (a dictionary with a \<open>'sentiments'\<close> entry) or a list of raw items.
\<close>

datatype news_arg = Falsy | Analysis news_analysis | Raw "news_item option list"

definition not_news :: "news_arg \<Rightarrow> bool" where
  \<comment> \<open>\<open>not news_items\<close>: an analysis dictionary has keys, so it is never falsy\<close>
  "not_news news = (case news of Falsy \<Rightarrow> True | Analysis a \<Rightarrow> False | Raw items \<Rightarrow> items = [])"

record day_counts = distribution +
  total :: nat

definition zero_counts :: day_counts where
  "zero_counts = \<lparr>positive = 0, negative = 0, neutral = 0, total = 0\<rparr>"

definition counts_at :: "(string \<rightharpoonup> day_counts) \<Rightarrow> string \<Rightarrow> day_counts" where
  \<comment> \<open>\<open>news_by_date.get(date, zeros)\<close>\<close>
  "counts_at news_by_date d = (case news_by_date d of None \<Rightarrow> zero_counts | Some c \<Rightarrow> c)"

definition date_of_timestamp :: "string \<Rightarrow> string" where
  "date_of_timestamp ts =
     (if CHR '' '' \<in> set ts then takeWhile (\<lambda>c. c \<noteq> CHR '' '') ts
      else if CHR ''T'' \<in> set ts then takeWhile (\<lambda>c. c \<noteq> CHR ''T'') ts
      else take 10 ts)"

definition count_sentiment :: "real \<Rightarrow> day_counts \<Rightarrow> day_counts" where
  "count_sentiment s c =
     (if s < - 0.1 then c\<lparr>negative := negative c + 1\<rparr>
      else if s > 0.1 then c\<lparr>positive := positive c + 1\<rparr>
      else c\<lparr>neutral := neutral c + 1\<rparr>)"

definition count_item ::
  "string \<Rightarrow> real \<Rightarrow> (string \<rightharpoonup> day_counts) \<Rightarrow> (string \<rightharpoonup> day_counts)" where
  \<comment> \<open>the body of both loops once the timestamp and the sentiment are known\<close>
  "count_item ts s news_by_date =
     (let date_str = date_of_timestamp ts in
      if length date_str < 10 then news_by_date
      else
        (let c = counts_at news_by_date date_str
         in news_by_date(date_str \<mapsto> count_sentiment s (c\<lparr>total := total c + 1\<rparr>))))"

definition count_sentiment_item ::
  "sentiment_item \<Rightarrow> (string \<rightharpoonup> day_counts) \<Rightarrow> (string \<rightharpoonup> day_counts)" where
  "count_sentiment_item item news_by_date =
     (case item_timestamp item of
        None \<Rightarrow> news_by_date
      | Some ts \<Rightarrow>
          count_item ts (case item_sentiment item of None \<Rightarrow> 0 | Some s \<Rightarrow> s) news_by_date)"

definition count_raw_item ::
  "(string \<Rightarrow> real) \<Rightarrow> news_item option \<Rightarrow> (string \<rightharpoonup> day_counts) \<Rightarrow> (string \<rightharpoonup> day_counts)"
  where
  "count_raw_item polarity item news_by_date =
     (case item of
        None \<Rightarrow> news_by_date
      | Some it \<Rightarrow>
          (case timestamp it of
             None \<Rightarrow> news_by_date
           | Some ts \<Rightarrow>
               count_item ts
                 (case sentiment it of None \<Rightarrow> polarity (item_content it) | Some s \<Rightarrow> s)
                 news_by_date))"

definition group_news_by_date :: "(string \<Rightarrow> real) \<Rightarrow> news_arg \<Rightarrow> (string \<rightharpoonup> day_counts)" where
  "group_news_by_date polarity news =
     (case news of
        Analysis a \<Rightarrow> fold count_sentiment_item (sentiments a) Map.empty
      | Raw items \<Rightarrow> fold (count_raw_item polarity) items Map.empty
      | Falsy \<Rightarrow> Map.empty)"

record correlation_row =
  date :: string
  price :: real
  total_news :: nat
  negative_news :: nat
  neutral_news :: nat
  positive_news :: nat

record correlation_result =
  correlation_coefficient :: "fl option"
  days_analyzed :: nat
  data :: "correlation_row list"
  error :: "string option"

datatype py_error = KeyError string | IndexError

definition str_of_error :: "py_error \<Rightarrow> string" where
  \<comment> \<open>\<open>str(e)\<close>\<close>
  "str_of_error e =
     (case e of
        KeyError k \<Rightarrow> [CHR 0x27] @ k @ [CHR 0x27]
      | IndexError \<Rightarrow> ''single positional indexer is out-of-bounds'')"

definition nonempty_frame :: "(string \<times> frame) list \<Rightarrow> string \<Rightarrow> frame option" where
  \<comment> \<open>\<open>key in d and not d[key].empty\<close>, with the frame\<close>
  "nonempty_frame d key =
     (case map_of d key of
        None \<Rightarrow> None
      | Some df \<Rightarrow> if frame_empty df then None else Some df)"

definition select_price_data :: "(string \<times> frame) list \<Rightarrow> frame option" where
  "select_price_data d =
     (case nonempty_frame d ''week'' of
        Some df \<Rightarrow> Some df
      | None \<Rightarrow>
          (case nonempty_frame d ''month'' of
             Some df \<Rightarrow> Some df
           | None \<Rightarrow> nonempty_frame d ''year''))"

fun build_rows ::
  "frame \<Rightarrow> (string \<rightharpoonup> day_counts) \<Rightarrow> nat list \<Rightarrow> py_error + correlation_row list" where
  \<comment> \<open>the loop over \<open>range(len(price_data))\<close>; a missing \<open>Close\<close> column or cell raises\<close>
  "build_rows price_data news_by_date [] = Inr []"
| "build_rows price_data news_by_date (i # is) =
     (case col price_data ''Close'' of
        None \<Rightarrow> Inl (KeyError ''Close'')
      | Some closes \<Rightarrow>
          (case iloc closes (int i) of
             None \<Rightarrow> Inl IndexError
           | Some p \<Rightarrow>
               (let d = index price_data ! i;
                    news_counts = counts_at news_by_date d;
                    row = \<lparr>date = d, price = p,
                           total_news = total news_counts,
                           negative_news = negative news_counts,
                           neutral_news = neutral news_counts,
                           positive_news = positive news_counts\<rparr>
                in case build_rows price_data news_by_date is of
                     Inl e \<Rightarrow> Inl e
                   | Inr rows \<Rightarrow> Inr (row # rows))))"

subsection \<open>The coefficient\<close>

definition mean :: "real list \<Rightarrow> real" where
  "mean xs = sum_list xs / real (length xs)"

definition centered_products :: "real list \<Rightarrow> real list \<Rightarrow> real" where
  "centered_products xs ys =
     sum_list (map (\<lambda>i. (xs ! i - mean xs) * (ys ! i - mean ys)) [0..<length xs])"

definition centered_squares :: "real list \<Rightarrow> real" where
  "centered_squares xs = sum_list (map (\<lambda>x. (x - mean xs)\<^sup>2) xs)"

fun fl_clip :: "fl \<Rightarrow> fl" where
  \<comment> \<open>\<open>np.clip(c, -1, 1)\<close>\<close>
  "fl_clip (Fin a) = Fin (max (- 1) (min 1 a))"
| "fl_clip PInf = Fin 1"
| "fl_clip NInf = Fin (- 1)"
| "fl_clip NaN = NaN"

text \<open>
  \<open>np.corrcoef(x, y)[0, 1]\<close> for two sequences of one length \<open>n \<ge> 2\<close>: the covariance
  (normalised by \<open>n - 1\<close>) divided by the standard deviation of each, then clipped to
  \<open>[-1, 1]\<close>. A standard deviation of zero makes the quotient \<open>0 / 0\<close>, which is NaN.
\<close>

definition np_corrcoef :: "real list \<Rightarrow> real list \<Rightarrow> fl" where
  "np_corrcoef xs ys =
     (let fact = real (length xs) - 1;
          c_xy = centered_products xs ys / fact;
          c_xx = centered_products xs xs / fact;
          c_yy = centered_products ys ys / fact
      in fl_clip (fl_div (fl_div (Fin c_xy) (Fin (sqrt c_xx))) (Fin (sqrt c_yy))))"

definition fallback_correlation :: "real list \<Rightarrow> real list \<Rightarrow> fl option" where
  \<comment> \<open>the \<open>except\<close> branch: the manual Pearson formula\<close>
  "fallback_correlation prices neg_news_counts =
     (if length prices = length neg_news_counts \<and> length prices > 0 then
        (let numerator = centered_products prices neg_news_counts;
             denom_price = centered_squares prices;
             denom_news = centered_squares neg_news_counts
         in if denom_price > 0 \<and> denom_news > 0
            then Some (Fin (numerator / sqrt (denom_price * denom_news)))
            else None)
      else None)"

definition correlate :: "bool \<Rightarrow> real list \<Rightarrow> nat list \<Rightarrow> fl option" where
  \<comment> \<open>\<open>np_ok\<close>: the numpy routine runs without raising\<close>
  "correlate np_ok prices neg_news_counts =
     (if length prices \<ge> 2 then
        (if length (remdups prices) > 1 \<and> sum_list neg_news_counts > 0 then
           (if np_ok then
              (let correlation_coef = np_corrcoef prices (map real neg_news_counts)
               in Some (if fl_isnan correlation_coef then Fin 0 else correlation_coef))
            else fallback_correlation prices (map real neg_news_counts))
         else None)
      else None)"

definition error_result :: "string \<Rightarrow> correlation_result" where
  "error_result msg =
     \<lparr>correlation_coefficient = None, days_analyzed = 0, data = [], error = Some msg\<rparr>"

definition compute_price_news_correlation ::
  "(string \<Rightarrow> real) \<Rightarrow> bool \<Rightarrow> security_data option \<Rightarrow> news_arg \<Rightarrow> correlation_result" where
  "compute_price_news_correlation polarity np_ok security_data news =
     (case (case security_data of None \<Rightarrow> None | Some sd \<Rightarrow> sd_data sd) of
        None \<Rightarrow> error_result ''No security data available''
      | Some d \<Rightarrow>
          if not_news news then error_result ''No news items available''
          else
            (case select_price_data d of
               None \<Rightarrow> error_result ''No historical price data available''
             | Some full \<Rightarrow>
                 (let days_to_analyze = min 10 (frame_len full);
                      price_data = frame_tail days_to_analyze full;
                      news_by_date = group_news_by_date polarity news
                  in case build_rows price_data news_by_date [0..<frame_len price_data] of
                       Inl e \<Rightarrow> error_result (''Error in correlation calculation: '' @ str_of_error e)
                     | Inr correlation_data \<Rightarrow>
                         \<lparr>correlation_coefficient =
                            correlate np_ok (map price correlation_data)
                              (map negative_news correlation_data),
                          days_analyzed = length correlation_data,
                          data = correlation_data,
                          error = None\<rparr>)))"

section \<open>The indicator engine\<close>

text \<open>
  The bundle is the \<open>analysis\<close> dictionary of \<open>_get_technical_analysis\<close>; a key that is
  absent is \<open>None\<close>, and \<open>{}\<close> has every key absent. Each of the four families is
  computed inside its own \<open>try\<close>: an exception leaves the family's keys absent.
\<close>

record sma_info =
  sma5 :: fl
  sma10 :: fl
  sma5_signal :: string
  sma10_signal :: string
  crossover :: string

record bollinger_info =
  upper :: fl
  middle :: fl
  lower :: fl
  signal :: string

record indicator_bundle =
  sma :: "sma_info option"
  rsi :: "fl option"
  rsi_signal :: "string option"
  macd :: "fl option"
  macd_signal :: "string option"
  macd_histogram :: "fl option"
  bollinger :: "bollinger_info option"
  signals :: "(string \<times> string) list option"

definition empty_bundle :: indicator_bundle where
  "empty_bundle =
     \<lparr>sma = None, rsi = None, rsi_signal = None, macd = None, macd_signal = None,
      macd_histogram = None, bollinger = None, signals = None\<rparr>"

subsection \<open>Window functions of pandas, at the last row\<close>

definition rolling_mean_last :: "nat \<Rightarrow> real list \<Rightarrow> fl" where
  \<comment> \<open>\<open>series.rolling(window=w).mean().iloc[-1]\<close>: NaN until \<open>w\<close> values are there\<close>
  "rolling_mean_last w xs =
     (if length xs < w then NaN else Fin (sum_list (last_n w xs) / real w))"

definition rolling_std_last :: "nat \<Rightarrow> real list \<Rightarrow> fl" where
  \<comment> \<open>\<open>series.rolling(window=w).std().iloc[-1]\<close>, the sample standard deviation\<close>
  "rolling_std_last w xs =
     (if length xs < w then NaN
      else
        (let win = last_n w xs; m = sum_list win / real w
         in Fin (sqrt (sum_list (map (\<lambda>x. (x - m)\<^sup>2) win) / (real w - 1)))))"

definition diff :: "real list \<Rightarrow> real option list" where
  \<comment> \<open>\<open>series.diff()\<close>: the first difference is NaN (\<open>None\<close>)\<close>
  "diff xs = (case xs of [] \<Rightarrow> [] | _ # rest \<Rightarrow> None # map Some (map2 (\<lambda>a b. b - a) xs rest))"

definition where_or_zero :: "(real \<Rightarrow> bool) \<Rightarrow> real option list \<Rightarrow> real list" where
  \<comment> \<open>\<open>delta.where(cond, 0)\<close>: a NaN fails the condition\<close>
  "where_or_zero cond ds = map (\<lambda>d. case d of None \<Rightarrow> 0 | Some v \<Rightarrow> if cond v then v else 0) ds"

fun ewm_from :: "real \<Rightarrow> real \<Rightarrow> real list \<Rightarrow> real list" where
  "ewm_from alpha y [] = []"
| "ewm_from alpha y (x # xs) =
     (let y' = (1 - alpha) * y + alpha * x in y' # ewm_from alpha y' xs)"

definition ewm_mean :: "nat \<Rightarrow> real list \<Rightarrow> real list" where
  \<comment> \<open>\<open>series.ewm(span=n, adjust=False).mean()\<close>\<close>
  "ewm_mean n xs =
     (case xs of [] \<Rightarrow> [] | x # rest \<Rightarrow> x # ewm_from (2 / (real n + 1)) x rest)"

subsection \<open>The four families\<close>

definition calc_sma :: "frame \<Rightarrow> sma_info option" where
  "calc_sma df =
     (case col df ''Close'' of
        None \<Rightarrow> None
      | Some closes \<Rightarrow>
          (case iloc closes (- 1) of
             None \<Rightarrow> None
           | Some last_close \<Rightarrow>
               (let last_sma5 = rolling_mean_last 5 closes;
                    last_sma10 = rolling_mean_last 10 closes
                in Some \<lparr>sma5 = last_sma5,
                         sma10 = last_sma10,
                         sma5_signal = (if fl_gt (Fin last_close) last_sma5 then ''buy'' else ''sell''),
                         sma10_signal = (if fl_gt (Fin last_close) last_sma10 then ''buy'' else ''sell''),
                         crossover = (if fl_gt last_sma5 last_sma10 then ''bullish'' else ''bearish'')\<rparr>)))"

definition calc_rsi :: "frame \<Rightarrow> (fl \<times> string) option" where
  "calc_rsi df =
     (case col df ''Close'' of
        None \<Rightarrow> None
      | Some closes \<Rightarrow>
          if closes = [] then None
          else
            (let delta = diff closes;
                 gain = rolling_mean_last 14 (where_or_zero (\<lambda>d. d > 0) delta);
                 loss = fl_neg (rolling_mean_last 14 (where_or_zero (\<lambda>d. d < 0) delta));
                 rs = fl_div gain loss;
                 last_rsi = fl_sub (Fin 100) (fl_div (Fin 100) (fl_add (Fin 1) rs))
             in Some (last_rsi,
                      if fl_gt last_rsi (Fin 70) then ''sell''
                      else if fl_lt last_rsi (Fin 30) then ''buy''
                      else ''neutral'')))"

definition calc_macd :: "frame \<Rightarrow> (fl \<times> string \<times> fl) option" where
  "calc_macd df =
     (case col df ''Close'' of
        None \<Rightarrow> None
      | Some closes \<Rightarrow>
          (let macd_line = map2 (\<lambda>a b. a - b) (ewm_mean 12 closes) (ewm_mean 26 closes);
               signal_line = ewm_mean 9 macd_line;
               histogram = map2 (\<lambda>a b. a - b) macd_line signal_line
           in case iloc macd_line (- 1) of
                None \<Rightarrow> None
              | Some last_macd \<Rightarrow>
                  (case iloc signal_line (- 1) of
                     None \<Rightarrow> None
                   | Some last_signal \<Rightarrow>
                       (case iloc histogram (- 1) of
                          None \<Rightarrow> None
                        | Some last_hist \<Rightarrow>
                            Some (Fin last_macd,
                                  if last_macd > last_signal then ''buy'' else ''sell'',
                                  Fin last_hist)))))"

definition calc_bollinger :: "frame \<Rightarrow> bollinger_info option" where
  "calc_bollinger df =
     (case col df ''Close'' of
        None \<Rightarrow> None
      | Some closes \<Rightarrow>
          (let sma20 = rolling_mean_last 20 closes;
               std_dev = rolling_std_last 20 closes;
               last_upper = fl_add sma20 (fl_mul std_dev (Fin 2));
               last_lower = fl_sub sma20 (fl_mul std_dev (Fin 2))
           in case iloc closes (- 1) of
                None \<Rightarrow> None
              | Some last_close \<Rightarrow>
                  Some \<lparr>upper = last_upper,
                        middle = sma20,
                        lower = last_lower,
                        signal = (if fl_gt (Fin last_close) last_upper then ''sell''
                                  else if fl_lt (Fin last_close) last_lower then ''buy''
                                  else ''neutral'')\<rparr>))"

definition aggregate_signals :: "indicator_bundle \<Rightarrow> (string \<times> string) list" where
  \<comment> \<open>the \<open>'signals'\<close> dictionary: \<open>analysis.get(key, 'neutral')\<close> for each family\<close>
  "aggregate_signals a =
     [(''sma'', (case sma a of None \<Rightarrow> ''neutral'' | Some s \<Rightarrow> sma5_signal s)),
      (''rsi'', (case rsi_signal a of None \<Rightarrow> ''neutral'' | Some s \<Rightarrow> s)),
      (''macd'', (case macd_signal a of None \<Rightarrow> ''neutral'' | Some s \<Rightarrow> s)),
      (''bollinger'', (case bollinger a of None \<Rightarrow> ''neutral'' | Some b \<Rightarrow> signal b))]"

definition get_technical_analysis :: "(string \<times> frame) list option \<Rightarrow> indicator_bundle" where
  "get_technical_analysis price_data =
     (case price_data of
        None \<Rightarrow> empty_bundle
      | Some pd \<Rightarrow>
          (case map_of pd ''week'' of
             None \<Rightarrow> empty_bundle
           | Some df \<Rightarrow>
               if frame_empty df then empty_bundle
               else if frame_len df < 10 then empty_bundle
               else
                 (let a1 = empty_bundle\<lparr>sma := calc_sma df\<rparr>;
                      a2 = (case calc_rsi df of
                              None \<Rightarrow> a1
                            | Some (v, s) \<Rightarrow> a1\<lparr>rsi := Some v, rsi_signal := Some s\<rparr>);
                      a3 = (case calc_macd df of
                              None \<Rightarrow> a2
                            | Some (v, s, h) \<Rightarrow>
                                a2\<lparr>macd := Some v, macd_signal := Some s,
                                   macd_histogram := Some h\<rparr>);
                      a4 = a3\<lparr>bollinger := calc_bollinger df\<rparr>
                  in a4\<lparr>signals := Some (aggregate_signals a4)\<rparr>)))"

subsection \<open>What the engine counts, said without the loop\<close>

text \<open>
  The news items with a valid timestamp, each as the pair of its date and the polarity
  the engine reads for it. The per-date counts of the loops above are compared with
  counts over this list.
\<close>

definition sentiment_entry :: "sentiment_item \<Rightarrow> (string \<times> real) option" where
  "sentiment_entry item =
     (case item_timestamp item of
        None \<Rightarrow> None
      | Some ts \<Rightarrow> Some (ts, (case item_sentiment item of None \<Rightarrow> 0 | Some s \<Rightarrow> s)))"

definition raw_entry :: "(string \<Rightarrow> real) \<Rightarrow> news_item option \<Rightarrow> (string \<times> real) option" where
  "raw_entry polarity item =
     (case item of
        None \<Rightarrow> None
      | Some it \<Rightarrow>
          (case timestamp it of
             None \<Rightarrow> None
           | Some ts \<Rightarrow>
               Some (ts, (case sentiment it of
                            None \<Rightarrow> polarity (item_content it)
                          | Some s \<Rightarrow> s))))"

definition dated_sentiments :: "(string \<Rightarrow> real) \<Rightarrow> news_arg \<Rightarrow> (string \<times> real) list" where
  "dated_sentiments polarity news =
     map (\<lambda>(ts, s). (date_of_timestamp ts, s))
       (filter (\<lambda>(ts, s). 10 \<le> length (date_of_timestamp ts))
          (case news of
             Falsy \<Rightarrow> []
           | Analysis a \<Rightarrow> List.map_filter sentiment_entry (sentiments a)
           | Raw items \<Rightarrow> List.map_filter (raw_entry polarity) items))"

section \<open>Example inputs\<close>



definition closes_frame :: "string list \<Rightarrow> real list \<Rightarrow> frame" where
  \<comment> \<open>a series with the given row labels and closing prices\<close>
  "closes_frame days cs = \<lparr>index = days, columns = [(''Close'', cs)]\<rparr>"

definition ten_rows :: frame where
  \<comment> \<open>a week series of ten hourly rows\<close>
  "ten_rows =
     \<lparr>index = replicate 10 ''2025-04-14'',
      columns =
        [(''Open'', [100, 101, 99, 102, 103, 101, 104, 105, 103, 106]),
         (''High'', [100, 101, 99, 102, 103, 101, 104, 105, 103, 106]),
         (''Low'', [100, 101, 99, 102, 103, 101, 104, 105, 103, 106]),
         (''Close'', [100, 101, 99, 102, 103, 101, 104, 105, 103, 106]),
         (''Volume'', replicate 10 1000)]\<rparr>"

definition week_only :: "frame \<Rightarrow> security_data option" where
  "week_only df = Some \<lparr>sd_data = Some [(''week'', df)], sd_stats = None\<rparr>"

definition titled :: "string \<Rightarrow> news_item option" where
  \<comment> \<open>a raw news item with a title and nothing else\<close>
  "titled t =
     Some \<lparr>title = Some t, summary = None, source = None, url = None, timestamp = None,
           sentiment = None, entities = None\<rparr>"

definition neutral_scorer :: "string \<Rightarrow> real" where
  \<comment> \<open>a sentiment scorer that finds every text neutral\<close>
  "neutral_scorer content = 0"

definition two_days :: frame where
  "two_days = closes_frame [''2025-04-14'', ''2025-04-15''] [100, 101]"

definition scored :: "string \<Rightarrow> real \<Rightarrow> sentiment_item" where
  \<comment> \<open>a classified item with a timestamp and a polarity\<close>
  "scored ts p =
     \<lparr>item_title = ''headline'', item_sentiment = Some p, sentiment_category = categorize p,
      item_source = ''Unknown'', item_url = [], item_timestamp = Some ts, item_topics = [],
      item_entities = None\<rparr>"

definition analysis_of :: "sentiment_item list \<Rightarrow> news_arg" where
  \<comment> \<open>a news analysis that holds the given classified items\<close>
  "analysis_of items = Analysis (get_empty_news_analysis\<lparr>sentiments := items\<rparr>)"

section \<open>Properties of the cache\<close>

text \<open>
  Claim C9. For every cache key, \<open>get\<close> returns the stored value only if
  \<open>now - stored_time < ttl\<close>, the ttl being fixed at construction to one hour and left
  alone by \<open>put\<close>; an entry that is at least ttl old behaves as absent, whether its
  time was stored as a \<open>datetime\<close> or as a string that parses, and an entry whose stored
  time is a string that fails to parse is a miss as well. The function is total: no
  case raises.
\<close>

theorem cache_get_respects_ttl:
  fixes self :: "'v analyzer"
  shows "(get_from_cache strptime now self k = Some v \<longrightarrow>
            (\<exists>ct t. data_cache self k = Some (ct, v)
               \<and> (case ct of Stamp t' \<Rightarrow> Some t' | Text s \<Rightarrow> strptime s) = Some t
               \<and> now - t < cache_expiry self))
       \<and> (data_cache self k = Some (Stamp t, v) \<and> now - t < cache_expiry self \<longrightarrow>
            get_from_cache strptime now self k = Some v)
       \<and> (data_cache self k = Some (Stamp t, v) \<and> cache_expiry self \<le> now - t \<longrightarrow>
            get_from_cache strptime now self k = None)
       \<and> (data_cache self k = Some (Text s, v) \<and> strptime s = Some t
              \<and> cache_expiry self \<le> now - t \<longrightarrow>
            get_from_cache strptime now self k = None)
       \<and> (data_cache self k = Some (Text s, v) \<and> strptime s = None \<longrightarrow>
            get_from_cache strptime now self k = None)
       \<and> (data_cache self k = None \<longrightarrow> get_from_cache strptime now self k = None)
       \<and> cache_expiry (init :: 'v analyzer) = 3600 * 1000000
       \<and> cache_expiry (store_in_cache now self k v) = cache_expiry self"
  by (auto simp: get_from_cache_def store_in_cache_def init_def hours_def
           split: option.splits cache_time.splits if_splits)

theorem cache_get_respects_ttl_witness:
  "get_from_cache (\<lambda>s. None) (3600 * 1000000 - 1) (store_in_cache 0 init ''k'' (7::nat)) ''k'' = Some 7
   \<and> get_from_cache (\<lambda>s. None) (3600 * 1000000) (store_in_cache 0 init ''k'' (7::nat)) ''k'' = None
   \<and> get_from_cache (\<lambda>s. None) 5
        \<lparr>data_cache = [''k'' \<mapsto> (Text ''yesterday'', 7::nat)], cache_expiry = hours 1\<rparr> ''k'' = None
   \<and> get_from_cache (\<lambda>s. Some 0) (3600 * 1000000)
        \<lparr>data_cache = [''k'' \<mapsto> (Text ''1970-01-01 00:00:00'', 7::nat)], cache_expiry = hours 1\<rparr> ''k'' = None"
proof -
  let ?self = "store_in_cache 0 init ''k'' (7::nat)"
  have e: "cache_expiry ?self = 3600 * 1000000"
    using cache_get_respects_ttl [of "\<lambda>s. None" 0 "init :: nat analyzer" "''k''" 7] by simp
  have d: "data_cache ?self ''k'' = Some (Stamp 0, 7)"
    by (simp add: store_in_cache_def)
  have 1: "get_from_cache (\<lambda>s. None) (3600 * 1000000 - 1) ?self ''k'' = Some 7"
    using cache_get_respects_ttl [of "\<lambda>s. None" "3600 * 1000000 - 1" ?self "''k''" 7 0] d e
    by simp
  have 2: "get_from_cache (\<lambda>s. None) (3600 * 1000000) ?self ''k'' = None"
    using cache_get_respects_ttl [of "\<lambda>s. None" "3600 * 1000000" ?self "''k''" 7 0] d e
    by simp
  have 3: "get_from_cache (\<lambda>s. None) 5
        \<lparr>data_cache = [''k'' \<mapsto> (Text ''yesterday'', 7::nat)], cache_expiry = hours 1\<rparr> ''k'' = None"
    using cache_get_respects_ttl [of "\<lambda>s. None" 5
        "\<lparr>data_cache = [''k'' \<mapsto> (Text ''yesterday'', 7::nat)], cache_expiry = hours 1\<rparr>"
        "''k''" 7 0 "''yesterday''"]
    by simp
  have 4: "get_from_cache (\<lambda>s. Some 0) (3600 * 1000000)
        \<lparr>data_cache = [''k'' \<mapsto> (Text ''1970-01-01 00:00:00'', 7::nat)], cache_expiry = hours 1\<rparr> ''k'' = None"
    using cache_get_respects_ttl [of "\<lambda>s. Some 0" "3600 * 1000000"
        "\<lparr>data_cache = [''k'' \<mapsto> (Text ''1970-01-01 00:00:00'', 7::nat)], cache_expiry = hours 1\<rparr>"
        "''k''" 7 0 "''1970-01-01 00:00:00''"]
    by (simp add: hours_def)
  from 1 2 3 4 show ?thesis by blast
qed

section \<open>Properties of the price summary\<close>









section \<open>Properties of the classifier\<close>

lemma process_item_sentiments:
  "sentiments (analysis (process_item polarity now_str item st)) =
     sentiments (analysis st) @ [make_sentiment_item polarity now_str item]"
  by (simp add: process_item_def Let_def)

lemma fold_process_item_sentiments:
  "sentiments (analysis (fold (process_item polarity now_str) xs st)) =
     sentiments (analysis st) @ map (make_sentiment_item polarity now_str) xs"
  by (induction xs arbitrary: st) (simp_all add: process_item_sentiments)

lemma analyze_news_impact_sentiments:
  "sentiments (analyze_news_impact polarity now_str items) =
     map (make_sentiment_item polarity now_str) (map the (filter is_valid_item items))"
  by (simp add: analyze_news_impact_def Let_def fold_process_item_sentiments
        get_empty_news_analysis_def)

text \<open>
  Claim C6. For every analyzed news item, the boundaries of the sentiment category are
  exact and strict: the item is \<open>positive\<close> iff its polarity is above 0.2, \<open>negative\<close>
  iff it is below -0.2, and \<open>neutral\<close> otherwise, so a polarity of exactly 0.2 or exactly
  -0.2 is \<open>neutral\<close>. The analyzed items are the valid input items, one for one, each
  scored on its own content.
\<close>

theorem sentiment_category_boundaries:
  "(\<forall>it \<in> set (sentiments (analyze_news_impact polarity now_str items)).
      \<exists>raw p. Some raw \<in> set items \<and> is_valid_item (Some raw)
        \<and> p = polarity (item_content raw)
        \<and> item_sentiment it = Some p
        \<and> (sentiment_category it = ''positive'' \<longleftrightarrow> p > 0.2)
        \<and> (sentiment_category it = ''negative'' \<longleftrightarrow> p < - 0.2)
        \<and> (sentiment_category it = ''neutral'' \<longleftrightarrow> - 0.2 \<le> p \<and> p \<le> 0.2))
   \<and> length (sentiments (analyze_news_impact polarity now_str items))
       = length (filter is_valid_item items)
   \<and> categorize 0.2 = ''neutral'' \<and> categorize (- 0.2) = ''neutral''"
proof -
  have cat: "(categorize p = ''positive'' \<longleftrightarrow> p > 0.2)
      \<and> (categorize p = ''negative'' \<longleftrightarrow> p < - 0.2)
      \<and> (categorize p = ''neutral'' \<longleftrightarrow> - 0.2 \<le> p \<and> p \<le> 0.2)" for p :: real
    by (auto simp: categorize_def)
  have each: "\<exists>raw p. Some raw \<in> set items \<and> is_valid_item (Some raw)
        \<and> p = polarity (item_content raw)
        \<and> item_sentiment it = Some p
        \<and> (sentiment_category it = ''positive'' \<longleftrightarrow> p > 0.2)
        \<and> (sentiment_category it = ''negative'' \<longleftrightarrow> p < - 0.2)
        \<and> (sentiment_category it = ''neutral'' \<longleftrightarrow> - 0.2 \<le> p \<and> p \<le> 0.2)"
    if "it \<in> set (sentiments (analyze_news_impact polarity now_str items))" for it
  proof -
    from that obtain x where x: "x \<in> set items" "is_valid_item x"
      and it: "it = make_sentiment_item polarity now_str (the x)"
      by (auto simp: analyze_news_impact_sentiments)
    from x(2) obtain raw where raw: "x = Some raw"
      by (cases x) (auto simp: is_valid_item_def)
    have "item_sentiment it = Some (polarity (item_content raw))"
      "sentiment_category it = categorize (polarity (item_content raw))"
      using it raw by (simp_all add: make_sentiment_item_def Let_def)
    with x raw cat [of "polarity (item_content raw)"] show ?thesis
      by (intro exI [of _ raw] exI [of _ "polarity (item_content raw)"]) simp
  qed
  show ?thesis
    using each by (simp add: analyze_news_impact_sentiments categorize_def)
qed

theorem sentiment_category_boundaries_witness:
  "map sentiment_category
     (sentiments (analyze_news_impact (\<lambda>content. if content = ''rally '' then 0.2 else - 0.2) ''now''
        [titled ''rally'', titled ''slump''])) = [''neutral'', ''neutral'']"
proof -
  let ?p = "\<lambda>content :: string. if content = ''rally '' then (0.2 :: real) else - 0.2"
  let ?items = "[titled ''rally'', titled ''slump'']"
  let ?a = "make_sentiment_item ?p ''now'' (the (titled ''rally''))"
  let ?b = "make_sentiment_item ?p ''now'' (the (titled ''slump''))"
  have t: "is_valid_item (titled x) = (x \<noteq> [])" for x
    by (simp add: is_valid_item_def titled_def)
  have s: "sentiments (analyze_news_impact ?p ''now'' ?items) = [?a, ?b]"
    by (simp add: analyze_news_impact_sentiments t)
  have pa: "item_sentiment ?a = Some 0.2"
    by (simp add: make_sentiment_item_def Let_def item_content_def titled_def)
  have pb: "item_sentiment ?b = Some (- 0.2)"
    by (simp add: make_sentiment_item_def Let_def item_content_def titled_def)
  note all = sentiment_category_boundaries [of ?p "''now''" ?items, unfolded s]
  from all obtain p where "item_sentiment ?a = Some p"
    "(sentiment_category ?a = ''neutral'') = (- 0.2 \<le> p \<and> p \<le> 0.2)"
    by (meson list.set_intros(1))
  with pa have a: "sentiment_category ?a = ''neutral''"
    by simp
  from all obtain q where "item_sentiment ?b = Some q"
    "(sentiment_category ?b = ''neutral'') = (- 0.2 \<le> q \<and> q \<le> 0.2)"
    by (meson list.set_intros)
  with pb have b: "sentiment_category ?b = ''neutral''"
    by simp
  show ?thesis
    unfolding s using a b by simp
qed

subsection \<open>The keyword list\<close>





























section \<open>Properties of the indicator engine\<close>

text \<open>
  Claim C7. For every price-data input whose week series has fewer than 10 rows, an
  empty or an absent series included, the indicator engine returns the empty bundle.
  The function is total: no case raises.
\<close>

theorem short_week_series_gives_empty_bundle:
  assumes "\<forall>pd df. price_data = Some pd \<longrightarrow> map_of pd ''week'' = Some df \<longrightarrow> frame_len df < 10"
  shows "get_technical_analysis price_data = empty_bundle"
  using assms by (auto simp: get_technical_analysis_def split: option.splits)

theorem short_week_series_gives_empty_bundle_witness:
  "get_technical_analysis
     (Some [(''week'', closes_frame (replicate 9 ''2025-04-14'') [1, 2, 3, 4, 5, 6, 7, 8, 9])])
     = empty_bundle
   \<and> get_technical_analysis (Some [(''month'', closes_frame [] [])]) = empty_bundle
   \<and> get_technical_analysis None = empty_bundle"
proof -
  have 1: "\<forall>pd df. Some [(''week'', closes_frame (replicate 9 ''2025-04-14'') [1, 2, 3, 4, 5, 6, 7, 8, 9])] = Some pd
      \<longrightarrow> map_of pd ''week'' = Some df \<longrightarrow> frame_len df < 10"
    by (auto simp: closes_frame_def frame_len_def)
  have 2: "\<forall>pd df. Some [(''month'', closes_frame [] [])] = Some pd
      \<longrightarrow> map_of pd ''week'' = Some df \<longrightarrow> frame_len df < 10"
    by auto
  have 3: "\<forall>pd df. (None :: (string \<times> frame) list option) = Some pd
      \<longrightarrow> map_of pd ''week'' = Some df \<longrightarrow> frame_len df < 10"
    by simp
  show ?thesis
    using short_week_series_gives_empty_bundle [OF 1]
      short_week_series_gives_empty_bundle [OF 2]
      short_week_series_gives_empty_bundle [OF 3]
    by simp
qed

lemma iloc_last_Some: "xs \<noteq> [] \<Longrightarrow> iloc xs (- 1) = Some (last xs)"
  by (cases xs rule: rev_cases) (auto simp: iloc_def nth_append)

lemma length_ewm_from: "length (ewm_from a y xs) = length xs"
  by (induction xs arbitrary: y) (simp_all add: Let_def)

lemma length_ewm_mean: "length (ewm_mean n xs) = length xs"
  by (cases xs) (simp_all add: ewm_mean_def length_ewm_from)

lemma length_diff: "length (diff xs) = length xs"
  by (cases xs) (simp_all add: diff_def)

lemma rolling_mean_last_short: "length xs < w \<Longrightarrow> rolling_mean_last w xs = NaN"
  by (simp add: rolling_mean_last_def)

lemma rolling_std_last_short: "length xs < w \<Longrightarrow> rolling_std_last w xs = NaN"
  by (simp add: rolling_std_last_def)

lemma calc_sma_present:
  assumes "col df ''Close'' = Some closes" "closes \<noteq> []"
  shows "\<exists>s. calc_sma df = Some s"
  using assms by (simp add: calc_sma_def iloc_last_Some Let_def)

lemma calc_rsi_present:
  assumes "col df ''Close'' = Some closes" "closes \<noteq> []"
  shows "\<exists>v sg. calc_rsi df = Some (v, sg)"
  using assms by (simp add: calc_rsi_def Let_def)

lemma calc_rsi_short:
  assumes "col df ''Close'' = Some closes" "closes \<noteq> []" "length closes < 14"
  shows "calc_rsi df = Some (NaN, ''neutral'')"
proof -
  have g: "rolling_mean_last 14 (where_or_zero c (diff closes)) = NaN" for c
    using assms(3) by (intro rolling_mean_last_short) (simp add: where_or_zero_def length_diff)
  show ?thesis
    using assms(1,2) by (simp add: calc_rsi_def Let_def g fl_sub_def fl_gt_def)
qed

lemma calc_macd_present:
  assumes "col df ''Close'' = Some closes" "closes \<noteq> []"
  shows "\<exists>v sg h. calc_macd df = Some (v, sg, h)"
proof -
  let ?macd = "map2 (\<lambda>a b. a - b) (ewm_mean 12 closes) (ewm_mean 26 closes)"
  let ?sig = "ewm_mean 9 ?macd"
  let ?hist = "map2 (\<lambda>a b. a - b) ?macd ?sig"
  have l1: "length ?macd = length closes" by (simp add: length_ewm_mean)
  have l2: "length ?sig = length closes" by (simp add: length_ewm_mean)
  have l3: "length ?hist = length closes" by (simp add: length_ewm_mean)
  have 1: "?macd \<noteq> []" using l1 assms(2) by (metis length_0_conv)
  have 2: "?sig \<noteq> []" using l2 assms(2) by (metis length_0_conv)
  have 3: "?hist \<noteq> []" using l3 assms(2) by (metis length_0_conv)
  show ?thesis
    using assms(1) iloc_last_Some [OF 1] iloc_last_Some [OF 2] iloc_last_Some [OF 3]
    by (simp add: calc_macd_def Let_def)
qed

lemma calc_bollinger_present:
  assumes "col df ''Close'' = Some closes" "closes \<noteq> []"
  shows "\<exists>b. calc_bollinger df = Some b"
  using assms by (simp add: calc_bollinger_def iloc_last_Some Let_def)

lemma calc_bollinger_short:
  assumes "col df ''Close'' = Some closes" "closes \<noteq> []" "length closes < 20"
  shows "calc_bollinger df =
     Some \<lparr>upper = NaN, middle = NaN, lower = NaN, signal = ''neutral''\<rparr>"
  using assms
  by (simp add: calc_bollinger_def iloc_last_Some Let_def rolling_mean_last_short
        rolling_std_last_short fl_sub_def fl_gt_def)

lemma technical_analysis_of_week:
  assumes "map_of pd ''week'' = Some df" "10 \<le> frame_len df"
    "calc_sma df = Some s" "calc_rsi df = Some (r, rs)" "calc_macd df = Some (m, ms, mh)"
    "calc_bollinger df = Some b" "columns df \<noteq> []"
  shows "get_technical_analysis (Some pd) =
     \<lparr>sma = Some s, rsi = Some r, rsi_signal = Some rs, macd = Some m,
      macd_signal = Some ms, macd_histogram = Some mh, bollinger = Some b,
      signals = Some [(''sma'', sma5_signal s), (''rsi'', rs), (''macd'', ms),
                      (''bollinger'', signal b)]\<rparr>"
proof -
  have "index df \<noteq> []" using assms(2) by (auto simp: frame_len_def)
  then have "\<not> frame_empty df" using assms(7) by (simp add: frame_empty_def)
  then show ?thesis
    using assms(1-6)
    by (simp add: get_technical_analysis_def Let_def aggregate_signals_def empty_bundle_def)
qed

lemma col_Some_columns: "col df name = Some vs \<Longrightarrow> columns df \<noteq> []"
  by (auto simp: col_def)

lemma ten_rows_facts:
  "map_of [(''week'', ten_rows)] ''week'' = Some ten_rows"
  "frame_len ten_rows = 10"
  "col ten_rows ''Close'' = Some [100, 101, 99, 102, 103, 101, 104, 105, 103, 106]"
  by (simp_all add: ten_rows_def frame_len_def col_def)

lemma ten_rows_sma: "\<exists>s. calc_sma ten_rows = Some s \<and> sma5_signal s = ''buy''"
proof -
  have "map_option sma5_signal (calc_sma ten_rows) = Some ''buy''"
    by code_simp
  then show ?thesis by auto
qed

lemma ten_rows_macd: "\<exists>m h. calc_macd ten_rows = Some (m, ''buy'', h)"
proof -
  have "map_option (\<lambda>(m, sg, h). sg) (calc_macd ten_rows) = Some ''buy''"
    by code_simp
  then show ?thesis by auto
qed

text \<open>
  Claim C3, as the code has it. For every week series of at least 10 rows that has a
  close for every row, the bundle holds all four families, and the \<open>signals\<close>
  aggregate carries exactly one value for each of \<open>sma\<close>, \<open>rsi\<close>, \<open>macd\<close> and
  \<open>bollinger\<close>: the family's own signal. A family whose window is longer than the
  history is not omitted: with fewer than 14 rows the RSI is NaN and its signal is
  \<open>neutral\<close>, with fewer than 20 rows the three Bollinger bands are NaN and their signal
  is \<open>neutral\<close>, and the aggregate reports \<open>neutral\<close> for them.
\<close>

theorem short_history_families_kept_as_neutral:
  assumes "map_of pd ''week'' = Some df" and "10 \<le> frame_len df"
    and "col df ''Close'' = Some closes" and "length closes = frame_len df"
  shows "\<exists>s r rs m ms mh b.
      get_technical_analysis (Some pd) =
        \<lparr>sma = Some s, rsi = Some r, rsi_signal = Some rs, macd = Some m,
         macd_signal = Some ms, macd_histogram = Some mh, bollinger = Some b,
         signals = Some [(''sma'', sma5_signal s), (''rsi'', rs), (''macd'', ms),
                         (''bollinger'', signal b)]\<rparr>
      \<and> (frame_len df < 14 \<longrightarrow> r = NaN \<and> rs = ''neutral'')
      \<and> (frame_len df < 20 \<longrightarrow>
            upper b = NaN \<and> middle b = NaN \<and> lower b = NaN \<and> signal b = ''neutral'')"
proof -
  from assms(2,4) have ne: "closes \<noteq> []" by auto
  from calc_sma_present [OF assms(3) ne] obtain s where s: "calc_sma df = Some s" by blast
  from calc_rsi_present [OF assms(3) ne] obtain r rs where r: "calc_rsi df = Some (r, rs)"
    by blast
  from calc_macd_present [OF assms(3) ne] obtain m ms mh where
    m: "calc_macd df = Some (m, ms, mh)" by blast
  from calc_bollinger_present [OF assms(3) ne] obtain b where b: "calc_bollinger df = Some b"
    by blast
  note t = technical_analysis_of_week [OF assms(1,2) s r m b col_Some_columns [OF assms(3)]]
  have short_rsi: "frame_len df < 14 \<longrightarrow> r = NaN \<and> rs = ''neutral''"
    using calc_rsi_short [OF assms(3) ne] r assms(4) by auto
  have short_boll: "frame_len df < 20 \<longrightarrow>
      upper b = NaN \<and> middle b = NaN \<and> lower b = NaN \<and> signal b = ''neutral''"
    using calc_bollinger_short [OF assms(3) ne] b assms(4) by auto
  from t short_rsi short_boll show ?thesis by blast
qed

theorem short_history_families_kept_as_neutral_witness:
  "\<exists>s m ms mh.
      get_technical_analysis (Some [(''week'', ten_rows)]) =
        \<lparr>sma = Some s, rsi = Some NaN, rsi_signal = Some ''neutral'', macd = Some m,
         macd_signal = Some ms, macd_histogram = Some mh,
         bollinger = Some \<lparr>upper = NaN, middle = NaN, lower = NaN, signal = ''neutral''\<rparr>,
         signals = Some [(''sma'', sma5_signal s), (''rsi'', ''neutral''), (''macd'', ms),
                         (''bollinger'', ''neutral'')]\<rparr>"
proof -
  have l: "10 \<le> frame_len ten_rows" "frame_len ten_rows < 14" "frame_len ten_rows < 20"
    by (simp_all add: ten_rows_facts)
  have c: "length [100, 101, 99, 102, 103, 101, 104, 105, 103, 106 :: real] = frame_len ten_rows"
    by (simp add: ten_rows_facts)
  from short_history_families_kept_as_neutral [OF ten_rows_facts(1) l(1) ten_rows_facts(3) c]
  obtain s r rs m ms mh b where
    g: "get_technical_analysis (Some [(''week'', ten_rows)]) =
        \<lparr>sma = Some s, rsi = Some r, rsi_signal = Some rs, macd = Some m,
         macd_signal = Some ms, macd_histogram = Some mh, bollinger = Some b,
         signals = Some [(''sma'', sma5_signal s), (''rsi'', rs), (''macd'', ms),
                         (''bollinger'', signal b)]\<rparr>"
    and r: "frame_len ten_rows < 14 \<longrightarrow> r = NaN \<and> rs = ''neutral''"
    and b: "frame_len ten_rows < 20 \<longrightarrow>
            upper b = NaN \<and> middle b = NaN \<and> lower b = NaN \<and> signal b = ''neutral''"
    by blast
  from b l(3) have "b = \<lparr>upper = NaN, middle = NaN, lower = NaN, signal = ''neutral''\<rparr>"
    by simp
  with g r l(2) show ?thesis by auto
qed

text \<open>
  Claim C3, as stated, fails: on a week series of ten rows the RSI (window 14) and the
  Bollinger bands (window 20) lack history, yet neither family is omitted; both are in
  the bundle as NaN, and both put the substitute \<open>neutral\<close> into the aggregate.
\<close>

theorem short_history_not_omitted_counterexample:
  "rsi (get_technical_analysis (Some [(''week'', ten_rows)])) = Some NaN
   \<and> rsi_signal (get_technical_analysis (Some [(''week'', ten_rows)])) = Some ''neutral''
   \<and> bollinger (get_technical_analysis (Some [(''week'', ten_rows)])) =
       Some \<lparr>upper = NaN, middle = NaN, lower = NaN, signal = ''neutral''\<rparr>
   \<and> signals (get_technical_analysis (Some [(''week'', ten_rows)])) =
       Some [(''sma'', ''buy''), (''rsi'', ''neutral''), (''macd'', ''buy''),
             (''bollinger'', ''neutral'')]"
proof -
  from ten_rows_sma obtain s where s: "calc_sma ten_rows = Some s" "sma5_signal s = ''buy''"
    by blast
  from ten_rows_macd obtain m h where m: "calc_macd ten_rows = Some (m, ''buy'', h)"
    by blast
  have ne: "[100, 101, 99, 102, 103, 101, 104, 105, 103, 106 :: real] \<noteq> []" by simp
  have r: "calc_rsi ten_rows = Some (NaN, ''neutral'')"
    by (rule calc_rsi_short [OF ten_rows_facts(3) ne]) simp
  have b: "calc_bollinger ten_rows =
      Some \<lparr>upper = NaN, middle = NaN, lower = NaN, signal = ''neutral''\<rparr>"
    by (rule calc_bollinger_short [OF ten_rows_facts(3) ne]) simp
  have l: "10 \<le> frame_len ten_rows" by (simp add: ten_rows_facts)
  note t = technical_analysis_of_week [OF ten_rows_facts(1) l s(1) r m b
      col_Some_columns [OF ten_rows_facts(3)]]
  show ?thesis
    unfolding t using s(2) by simp
qed

section \<open>Properties of the correlation engine\<close>

subsection \<open>The loops as counts, and the shape of the result\<close>

lemma counts_at_count_item:
  "counts_at (count_item ts s m) d =
     (if 10 \<le> length (date_of_timestamp ts) \<and> date_of_timestamp ts = d
      then count_sentiment s ((counts_at m d)\<lparr>total := total (counts_at m d) + 1\<rparr>)
      else counts_at m d)"
  by (auto simp: count_item_def counts_at_def Let_def)

lemma fold_count_item:
  "counts_at (fold (\<lambda>(ts, s). count_item ts s) es m) d =
     \<lparr>positive = positive (counts_at m d)
        + length (filter (\<lambda>(d', s). d' = d \<and> s > 0.1)
            (map (\<lambda>(ts, s). (date_of_timestamp ts, s))
               (filter (\<lambda>(ts, s). 10 \<le> length (date_of_timestamp ts)) es))),
      negative = negative (counts_at m d)
        + length (filter (\<lambda>(d', s). d' = d \<and> s < - 0.1)
            (map (\<lambda>(ts, s). (date_of_timestamp ts, s))
               (filter (\<lambda>(ts, s). 10 \<le> length (date_of_timestamp ts)) es))),
      neutral = neutral (counts_at m d)
        + length (filter (\<lambda>(d', s). d' = d \<and> - 0.1 \<le> s \<and> s \<le> 0.1)
            (map (\<lambda>(ts, s). (date_of_timestamp ts, s))
               (filter (\<lambda>(ts, s). 10 \<le> length (date_of_timestamp ts)) es))),
      total = total (counts_at m d)
        + length (filter (\<lambda>(d', s). d' = d)
            (map (\<lambda>(ts, s). (date_of_timestamp ts, s))
               (filter (\<lambda>(ts, s). 10 \<le> length (date_of_timestamp ts)) es)))\<rparr>"
proof (induction es arbitrary: m)
  case Nil
  then show ?case by simp
next
  case (Cons e es)
  obtain ts s where e: "e = (ts, s)" by (cases e)
  show ?case
    unfolding e
    by (auto simp: Cons.IH counts_at_count_item count_sentiment_def)
qed

lemma fold_count_sentiment_item:
  "fold count_sentiment_item items m =
     fold (\<lambda>(ts, s). count_item ts s) (List.map_filter sentiment_entry items) m"
  by (induction items arbitrary: m)
     (auto simp: List.map_filter_simps count_sentiment_item_def sentiment_entry_def
           split: option.splits)

lemma fold_count_raw_item:
  "fold (count_raw_item polarity) items m =
     fold (\<lambda>(ts, s). count_item ts s) (List.map_filter (raw_entry polarity) items) m"
  by (induction items arbitrary: m)
     (auto simp: List.map_filter_simps count_raw_item_def raw_entry_def
           split: option.splits)

lemma counts_at_empty: "counts_at Map.empty d = zero_counts"
  by (simp add: counts_at_def)

lemma group_news_by_date_counts:
  "counts_at (group_news_by_date polarity news) d =
     \<lparr>positive = length (filter (\<lambda>(d', s). d' = d \<and> s > 0.1) (dated_sentiments polarity news)),
      negative = length (filter (\<lambda>(d', s). d' = d \<and> s < - 0.1) (dated_sentiments polarity news)),
      neutral = length (filter (\<lambda>(d', s). d' = d \<and> - 0.1 \<le> s \<and> s \<le> 0.1)
                  (dated_sentiments polarity news)),
      total = length (filter (\<lambda>(d', s). d' = d) (dated_sentiments polarity news))\<rparr>"
  by (cases news)
     (simp_all add: group_news_by_date_def dated_sentiments_def fold_count_sentiment_item
        fold_count_raw_item fold_count_item counts_at_empty zero_counts_def)


lemma build_rows_Inr:
  "build_rows pd nbd is = Inr rows \<Longrightarrow>
     length rows = length is
     \<and> (\<forall>row \<in> set rows. \<exists>i \<in> set is. date row = index pd ! i
           \<and> total_news row = total (counts_at nbd (date row))
           \<and> negative_news row = negative (counts_at nbd (date row))
           \<and> neutral_news row = neutral (counts_at nbd (date row))
           \<and> positive_news row = positive (counts_at nbd (date row)))"
proof (induction "is" arbitrary: rows)
  case Nil
  then show ?case by simp
next
  case (Cons i "is")
  from Cons.prems obtain closes p rest where
    "col pd ''Close'' = Some closes" "iloc closes (int i) = Some p"
    and rest: "build_rows pd nbd is = Inr rest"
    and rows: "rows = \<lparr>date = index pd ! i, price = p,
                 total_news = total (counts_at nbd (index pd ! i)),
                 negative_news = negative (counts_at nbd (index pd ! i)),
                 neutral_news = neutral (counts_at nbd (index pd ! i)),
                 positive_news = positive (counts_at nbd (index pd ! i))\<rparr> # rest"
    by (auto simp: Let_def split: option.splits sum.splits)
  from Cons.IH [OF rest] show ?case
    unfolding rows by auto
qed





lemma compute_shape:
  "(\<exists>msg. compute_price_news_correlation polarity np_ok security_data news = error_result msg)
   \<or> (\<exists>frames full rows.
        (case security_data of None \<Rightarrow> None | Some sd \<Rightarrow> sd_data sd) = Some frames
        \<and> \<not> not_news news
        \<and> select_price_data frames = Some full
        \<and> build_rows (frame_tail (min 10 (frame_len full)) full)
             (group_news_by_date polarity news)
             [0..<frame_len (frame_tail (min 10 (frame_len full)) full)] = Inr rows
        \<and> compute_price_news_correlation polarity np_ok security_data news =
             \<lparr>correlation_coefficient =
                correlate np_ok (map price rows) (map negative_news rows),
              days_analyzed = length rows, data = rows, error = None\<rparr>)"
proof (cases "case security_data of None \<Rightarrow> None | Some sd \<Rightarrow> sd_data sd")
  case None
  then show ?thesis by (auto simp: compute_price_news_correlation_def)
next
  case (Some frames)
  note d = this
  show ?thesis
  proof (cases "not_news news")
    case True
    with d show ?thesis by (auto simp: compute_price_news_correlation_def)
  next
    case False
    note nn = this
    show ?thesis
    proof (cases "select_price_data frames")
      case None
      with d nn show ?thesis by (auto simp: compute_price_news_correlation_def)
    next
      case (Some full)
      note sel = this
      show ?thesis
      proof (cases "build_rows (frame_tail (min 10 (frame_len full)) full)
             (group_news_by_date polarity news)
             [0..<frame_len (frame_tail (min 10 (frame_len full)) full)]")
        case (Inl e)
        with d nn sel show ?thesis
          by (auto simp: compute_price_news_correlation_def Let_def)
      next
        case (Inr rows)
        with d nn sel show ?thesis
          by (simp add: compute_price_news_correlation_def Let_def)
      qed
    qed
  qed
qed

lemma compute_cases:
  obtains (failed) msg where
      "compute_price_news_correlation polarity np_ok security_data news = error_result msg"
  | (analyzed) frames full rows where
      "(case security_data of None \<Rightarrow> None | Some sd \<Rightarrow> sd_data sd) = Some frames"
      "\<not> not_news news"
      "select_price_data frames = Some full"
      "build_rows (frame_tail (min 10 (frame_len full)) full)
         (group_news_by_date polarity news)
         [0..<frame_len (frame_tail (min 10 (frame_len full)) full)] = Inr rows"
      "compute_price_news_correlation polarity np_ok security_data news =
         \<lparr>correlation_coefficient =
            correlate np_ok (map price rows) (map negative_news rows),
          days_analyzed = length rows, data = rows, error = None\<rparr>"
  using compute_shape [of polarity np_ok security_data news] by blast



lemma two_days_rows:
  "build_rows (frame_tail (min 10 (frame_len two_days)) two_days) nbd
     [0..<frame_len (frame_tail (min 10 (frame_len two_days)) two_days)] =
   Inr [\<lparr>date = ''2025-04-14'', price = 100,
          total_news = total (counts_at nbd ''2025-04-14''),
          negative_news = negative (counts_at nbd ''2025-04-14''),
          neutral_news = neutral (counts_at nbd ''2025-04-14''),
          positive_news = positive (counts_at nbd ''2025-04-14'')\<rparr>,
        \<lparr>date = ''2025-04-15'', price = 101,
          total_news = total (counts_at nbd ''2025-04-15''),
          negative_news = negative (counts_at nbd ''2025-04-15''),
          neutral_news = neutral (counts_at nbd ''2025-04-15''),
          positive_news = positive (counts_at nbd ''2025-04-15'')\<rparr>]"
proof -
  have f: "frame_tail (min 10 (frame_len two_days)) two_days = two_days"
    by (simp add: frame_tail_def frame_len_def two_days_def closes_frame_def last_n_def)
  have u: "[0..<frame_len two_days] = [0, 1]"
    by (simp add: frame_len_def two_days_def closes_frame_def upt_rec)
  show ?thesis
    unfolding f u
    by (simp add: two_days_def closes_frame_def col_def iloc_def Let_def)
qed

lemma two_days_data:
  "\<not> not_news news \<Longrightarrow>
   data (compute_price_news_correlation polarity np_ok (week_only two_days) news) =
     [\<lparr>date = ''2025-04-14'', price = 100,
          total_news = total (counts_at (group_news_by_date polarity news) ''2025-04-14''),
          negative_news = negative (counts_at (group_news_by_date polarity news) ''2025-04-14''),
          neutral_news = neutral (counts_at (group_news_by_date polarity news) ''2025-04-14''),
          positive_news = positive (counts_at (group_news_by_date polarity news) ''2025-04-14'')\<rparr>,
        \<lparr>date = ''2025-04-15'', price = 101,
          total_news = total (counts_at (group_news_by_date polarity news) ''2025-04-15''),
          negative_news = negative (counts_at (group_news_by_date polarity news) ''2025-04-15''),
          neutral_news = neutral (counts_at (group_news_by_date polarity news) ''2025-04-15''),
          positive_news = positive (counts_at (group_news_by_date polarity news) ''2025-04-15'')\<rparr>]"
proof -
  assume n: "\<not> not_news news"
  have sel: "select_price_data [(''week'', two_days)] = Some two_days"
    by (simp add: select_price_data_def nonempty_frame_def frame_empty_def two_days_def
          closes_frame_def)
  show ?thesis
    using n by (simp add: compute_price_news_correlation_def week_only_def sel Let_def two_days_rows)
qed

lemma three_items_dated:
  "dated_sentiments polarity (analysis_of
      [scored ''2025-04-14 09:30'' (- 0.15), scored ''2025-04-14T11:00:00'' 0.15,
       scored ''2025-04-15'' 0.05, scored ''soon'' (- 0.9)]) =
     [(''2025-04-14'', - 0.15), (''2025-04-14'', 0.15), (''2025-04-15'', 0.05)]"
  by (simp add: dated_sentiments_def analysis_of_def List.map_filter_simps sentiment_entry_def
        scored_def date_of_timestamp_def)

subsection \<open>No news\<close>





subsection \<open>The per-date counts\<close>

text \<open>
  Claim C2, as the code has it. The per-date counts classify every news item with a
  valid timestamp by the thresholds -0.1 and 0.1: an item is counted negative iff its
  polarity is below -0.1, positive iff it is above 0.1, and neutral otherwise, and it
  is counted in the total of its date. These are not the thresholds -0.2 and 0.2 of
  the classifier.
\<close>

theorem correlation_counts_use_tenth_thresholds:
  "\<forall>row \<in> set (data (compute_price_news_correlation polarity np_ok security_data news)).
     negative_news row =
       length (filter (\<lambda>(d, s). d = date row \<and> s < - 0.1) (dated_sentiments polarity news))
     \<and> positive_news row =
       length (filter (\<lambda>(d, s). d = date row \<and> s > 0.1) (dated_sentiments polarity news))
     \<and> neutral_news row =
       length (filter (\<lambda>(d, s). d = date row \<and> - 0.1 \<le> s \<and> s \<le> 0.1)
                 (dated_sentiments polarity news))
     \<and> total_news row =
       length (filter (\<lambda>(d, s). d = date row) (dated_sentiments polarity news))"
proof (cases rule: compute_cases [of polarity np_ok security_data news])
  case (failed msg)
  then show ?thesis by (simp add: error_result_def)
next
  case (analyzed frames full rows)
  from build_rows_Inr [OF analyzed(4)] show ?thesis
    unfolding analyzed(5) by (auto simp: group_news_by_date_counts)
qed

theorem correlation_counts_use_tenth_thresholds_witness:
  "map (\<lambda>row. (date row, negative_news row, neutral_news row, positive_news row, total_news row))
     (data (compute_price_news_correlation neutral_scorer True (week_only two_days)
        (analysis_of
          [scored ''2025-04-14 09:30'' (- 0.15), scored ''2025-04-14T11:00:00'' 0.15,
           scored ''2025-04-15'' 0.05, scored ''soon'' (- 0.9)]))) =
     [(''2025-04-14'', 1, 0, 1, 2), (''2025-04-15'', 0, 1, 0, 1)]"
proof -
  let ?news = "analysis_of
          [scored ''2025-04-14 09:30'' (- 0.15), scored ''2025-04-14T11:00:00'' 0.15,
           scored ''2025-04-15'' 0.05, scored ''soon'' (- 0.9)]"
  have n: "\<not> not_news ?news"
    by (simp add: not_news_def analysis_of_def)
  note rows = two_days_data [OF n, of neutral_scorer True]
  note counts = correlation_counts_use_tenth_thresholds
    [of neutral_scorer True "week_only two_days" ?news, unfolded three_items_dated]
  from counts show ?thesis
    unfolding rows by simp
qed

text \<open>
  Claim C2, as stated, fails: an item of polarity 0.15 is counted positive by the
  engine, while 0.15 is not above 0.2 and the classifier calls the item neutral.
\<close>

theorem correlation_thresholds_counterexample:
  "map positive_news
     (data (compute_price_news_correlation neutral_scorer True (week_only two_days)
        (analysis_of [scored ''2025-04-14 09:30'' 0.15]))) = [1, 0]
   \<and> map neutral_news
     (data (compute_price_news_correlation neutral_scorer True (week_only two_days)
        (analysis_of [scored ''2025-04-14 09:30'' 0.15]))) = [0, 0]
   \<and> \<not> (0.15 :: real) > 0.2
   \<and> sentiment_category (scored ''2025-04-14 09:30'' 0.15) = ''neutral''"
proof -
  let ?news = "analysis_of [scored ''2025-04-14 09:30'' 0.15]"
  have n: "\<not> not_news ?news"
    by (simp add: not_news_def analysis_of_def)
  have d: "dated_sentiments neutral_scorer ?news = [(''2025-04-14'', 0.15)]"
    by (simp add: dated_sentiments_def analysis_of_def List.map_filter_simps sentiment_entry_def
          scored_def date_of_timestamp_def)
  have c: "sentiment_category (scored ''2025-04-14 09:30'' 0.15) = ''neutral''"
    by (simp add: scored_def categorize_def)
  show ?thesis
    unfolding two_days_data [OF n] group_news_by_date_counts d c
    by simp
qed

subsection \<open>The coefficient\<close>




















end
